theory Spec2Isabelle
  imports Complex_Main
begin

section \<open>JSON values and optional strings\<close>

text \<open>
  A \<open>Prisma.JsonValue\<close>. \<open>JNull\<close> stands for both \<open>null\<close> and \<open>undefined\<close>
  (the code tests \<open>value == null\<close>, which holds of both). An object is its list of
  properties; a property read is \<open>map_of\<close>, and a property that is not there reads as
  \<open>undefined\<close> (\<open>None\<close>). Numbers are never inspected by the code.
\<close>

datatype json =
    JNull
  | JBool bool
  | JNum real
  | JString string
  | JArray "json list"
  | JObject "(string \<times> json) list"

text \<open>
  An optional string (\<open>shareToken?: string\<close>, \<open>string | null\<close>) is a \<open>string option\<close>.
  JavaScript's truth test on it (\<open>if (token)\<close>, \<open>a || b\<close>) fails on \<open>undefined\<close>,
  \<open>null\<close> and the empty string.
\<close>

definition truthy :: "string option \<Rightarrow> bool" where
  "truthy s = (case s of None \<Rightarrow> False | Some v \<Rightarrow> v \<noteq> [])"

section \<open>realtime.service.ts: the snapshot normalizer\<close>

record DiagramSnapshot =
  nodes :: "json list"
  edges :: "json list"
  updatedAt :: string

text \<open>
  The collaborators of the code that are not part of it: the JWT verifier
  (\<open>None\<close> when \<open>jwt.verify\<close> throws), the share-link validator, \<open>JSON.parse\<close>
  (\<open>None\<close> when it throws) and \<open>loadedAt\<close>, the value of
  \<open>new Date().toISOString()\<close> at the moment the module realtime.service.ts was loaded.
  The reading of the clock at the time of a call is the argument \<open>now\<close> of each function
  that reads it.
\<close>

record JwtPayload =
  payload_id :: "string option"
  payload_sub :: "string option"

record Env =
  jwt_verify :: "string \<Rightarrow> JwtPayload option"
  share_validateShareToken :: "string \<Rightarrow> string \<Rightarrow> bool"
  JSON_parse :: "string \<Rightarrow> json option"
  loadedAt :: string

text \<open>The module constant: its \<open>updatedAt\<close> is computed once, when the module is loaded.\<close>

definition EMPTY_SNAPSHOT :: "Env \<Rightarrow> DiagramSnapshot" where
  "EMPTY_SNAPSHOT env = \<lparr>nodes = [], edges = [], updatedAt = loadedAt env\<rparr>"

fun isRecord :: "json \<Rightarrow> bool" where
  "isRecord (JObject kv) = True"
| "isRecord v = False"

definition coerceSnapshot :: "string \<Rightarrow> (string \<times> json) list \<Rightarrow> DiagramSnapshot" where
  "coerceSnapshot now obj =
     \<lparr>nodes = (case map_of obj ''nodes'' of Some (JArray xs) \<Rightarrow> xs | _ \<Rightarrow> []),
      edges = (case map_of obj ''edges'' of Some (JArray xs) \<Rightarrow> xs | _ \<Rightarrow> []),
      updatedAt = (case map_of obj ''updatedAt'' of
                     Some (JString s) \<Rightarrow> if s \<noteq> [] then s else now
                   | _ \<Rightarrow> now)\<rparr>"

fun toSnapshot :: "Env \<Rightarrow> string \<Rightarrow> json \<Rightarrow> DiagramSnapshot" where
  "toSnapshot env now JNull = EMPTY_SNAPSHOT env"
| "toSnapshot env now (JString s) =
     (case JSON_parse env s of
        Some (JObject kv) \<Rightarrow> coerceSnapshot now kv
      | _ \<Rightarrow> EMPTY_SNAPSHOT env)"
| "toSnapshot env now (JObject kv) = coerceSnapshot now kv"
| "toSnapshot env now v = EMPTY_SNAPSHOT env"

text \<open>
  A snapshot as the JSON value it is: what is written to the store
  (\<open>fresh as unknown as Prisma.InputJsonValue\<close>) and what the normalizer sees when it is
  given one of its own results.
\<close>

definition snapshotJson :: "DiagramSnapshot \<Rightarrow> json" where
  "snapshotJson s =
     JObject [(''nodes'', JArray (nodes s)), (''edges'', JArray (edges s)),
              (''updatedAt'', JString (updatedAt s))]"

section \<open>The store and the room registry\<close>

datatype MemberRole = M_OWNER | M_ADMIN | M_EDITOR | M_VIEWER

datatype RequestStatus = PENDING | APPROVED

record EditRequest =
  status :: RequestStatus
  message :: "string option"

datatype Patch =
    nodeMoved string real real
  | nodeAttrs string json
  | edgeAdded json
  | edgeRemoved string
  | full "json list" "json list"

text \<open>
  \<open>RoomState\<close>. The field \<open>debouncedSave\<close> is a timer: \<open>savePending\<close> says that it is
  armed (a call of \<open>debouncedSave()\<close> arms or re-arms it). \<open>ref\<close> is the identity of the
  object: the number of rooms constructed before it.
\<close>

record RoomState =
  ref :: nat
  snapshot :: DiagramSnapshot
  pendingPatches :: "Patch list"
  savePending :: bool

text \<open>Every call that leaves the process, in the order it is made.\<close>

datatype Call =
    DiagramFindUnique string
  | DiagramCreate string
  | DiagramUpdate string
  | ProjectFindUnique string
  | ProjectMemberUpsert string string
  | EditRequestUpdateMany string string
  | JwtVerify string
  | ShareValidate string string

text \<open>
  Modelled from the spec: the tables behind \<open>PrismaService\<close> (common/prisma.service.ts and
  the schema are not among the sources), as section 3 of the specification and the queries of
  the code describe them: a project has an owner, a membership row and an edit request are
  unique for (project, user), a diagram row holds the snapshot of a project as JSON.
  \<open>rooms\<close> is the map of \<open>RealtimeService\<close>, \<open>allocated\<close> the number of rooms
  constructed so far, \<open>calls\<close> the trace of external calls. Store calls do not fail here.
\<close>

record World =
  rooms :: "string \<rightharpoonup> RoomState"
  allocated :: nat
  projects :: "string \<rightharpoonup> string"
  members :: "string \<times> string \<rightharpoonup> MemberRole"
  editRequests :: "string \<times> string \<rightharpoonup> EditRequest"
  diagrams :: "string \<rightharpoonup> json"
  calls :: "Call list"

definition called :: "Call \<Rightarrow> World \<Rightarrow> World" where
  "called c w = w\<lparr>calls := calls w @ [c]\<rparr>"

definition loadInitial :: "Env \<Rightarrow> string \<Rightarrow> World \<Rightarrow> string \<Rightarrow> DiagramSnapshot \<times> World" where
  "loadInitial env now w projectId =
     (let w1 = called (DiagramFindUnique projectId) w in
      case diagrams w1 projectId of
        None \<Rightarrow>
          (let fresh = EMPTY_SNAPSHOT env;
               w2 = called (DiagramCreate projectId) w1
           in (fresh, w2\<lparr>diagrams := (diagrams w2)(projectId \<mapsto> snapshotJson fresh)\<rparr>))
      | Some stored \<Rightarrow> (toSnapshot env now stored, w1))"

definition getRoom :: "World \<Rightarrow> string \<Rightarrow> RoomState option" where
  "getRoom w projectId = rooms w projectId"

definition ensureRoom :: "Env \<Rightarrow> string \<Rightarrow> World \<Rightarrow> string \<Rightarrow> RoomState \<times> World" where
  "ensureRoom env now w projectId =
     (case rooms w projectId of
        Some room \<Rightarrow> (room, w)
      | None \<Rightarrow>
          (let (snap, w1) = loadInitial env now w projectId;
               state = \<lparr>ref = allocated w1, snapshot = snap, pendingPatches = [],
                        savePending = False\<rparr>
           in (state, w1\<lparr>rooms := (rooms w1)(projectId \<mapsto> state),
                          allocated := Suc (allocated w1)\<rparr>)))"

text \<open>The body of the debounced callback of a room, run when its timer fires.\<close>

definition debouncedSave_fire :: "string \<Rightarrow> World \<Rightarrow> string \<Rightarrow> World" where
  "debouncedSave_fire now w projectId =
     (case rooms w projectId of
        None \<Rightarrow> w
      | Some room \<Rightarrow>
          (let toSave = (snapshot room)\<lparr>updatedAt := now\<rparr>;
               w1 = called (DiagramUpdate projectId) w;
               w2 = w1\<lparr>diagrams := (diagrams w1)(projectId \<mapsto> snapshotJson toSave)\<rparr>
           in w2\<lparr>rooms := (rooms w2)(projectId \<mapsto>
                   room\<lparr>snapshot := toSave, savePending := False\<rparr>)\<rparr>))"

definition queuePatch :: "World \<Rightarrow> string \<Rightarrow> Patch \<Rightarrow> World" where
  "queuePatch w projectId patch =
     (case rooms w projectId of
        None \<Rightarrow> w
      | Some room \<Rightarrow>
          w\<lparr>rooms := (rooms w)(projectId \<mapsto>
              room\<lparr>pendingPatches := pendingPatches room @ [patch], savePending := True\<rparr>)\<rparr>)"

section \<open>diagram.gateway.ts: the connection gateway\<close>

datatype Role = VIEWER | EDITOR | OWNER

datatype Reason = invalid_share_link | unauthorized | no_permission | login_required

text \<open>\<open>client.data\<close>, as \<open>handleJoin\<close> sets it: \<open>{projectId, userId, role}\<close>.\<close>

record ClientData =
  data_projectId :: string
  data_userId :: "string option"
  data_role :: Role

text \<open>
  A socket: its \<open>data\<close> (\<open>None\<close> before a join has set it) and the groups it has
  joined with \<open>client.join\<close>.
\<close>

record Socket =
  client_data :: "ClientData option"
  client_rooms :: "string set"

datatype Event =
    joinDenied Reason
  | joined DiagramSnapshot Role
  | presence "string option" Role string
  | editDenied Reason
  | remotePatch Patch
  | memberUpdated string string

text \<open>
  Where an event goes: \<open>client.emit\<close> (the sender alone), \<open>server.to(room).emit\<close>
  (every socket of the group) and \<open>client.to(room).emit\<close> (the group without the sender).
\<close>

datatype Target = ToClient | ToRoom string | ToOthersInRoom string

type_synonym Emit = "Target \<times> Event"

definition parseUserIdFromToken :: "Env \<Rightarrow> World \<Rightarrow> string option \<Rightarrow> string option \<times> World" where
  "parseUserIdFromToken env w token =
     (case token of
        None \<Rightarrow> (None, w)
      | Some t \<Rightarrow>
          if t = [] then (None, w)
          else
            (let w1 = called (JwtVerify t) w in
             case jwt_verify env t of
               None \<Rightarrow> (None, w1)
             | Some payload \<Rightarrow>
                 (if truthy (payload_id payload) then payload_id payload
                  else if truthy (payload_sub payload) then payload_sub payload
                  else None, w1)))"

text \<open>
  \<open>handleJoin\<close>, with the message destructured as its first line does. The result is the
  new state, the socket and the events emitted, in order.
\<close>

definition handleJoin ::
  "Env \<Rightarrow> string \<Rightarrow> World \<Rightarrow> Socket \<Rightarrow> string \<Rightarrow> string option \<Rightarrow> string option
     \<Rightarrow> World \<times> Socket \<times> Emit list" where
  "handleJoin env now w client projectId shareToken authToken =
     (let (snap, w1) = (case getRoom w projectId of
                          Some room \<Rightarrow> (snapshot room, w)
                        | None \<Rightarrow> loadInitial env now w projectId);
          (userId, w2) = parseUserIdFromToken env w1 authToken;
          accept = (\<lambda>w' role.
            (w',
             client\<lparr>client_rooms := insert projectId (client_rooms client),
                    client_data := Some \<lparr>data_projectId = projectId, data_userId = userId,
                                         data_role = role\<rparr>\<rparr>,
             [(ToClient, joined snap role),
              (ToRoom projectId, presence userId role ''join'')]))
      in if truthy userId then
           (let w3 = called (ProjectFindUnique projectId) w2;
                role = (case projects w3 projectId of
                          None \<Rightarrow> VIEWER
                        | Some ownerId \<Rightarrow>
                            if Some ownerId = userId then OWNER
                            else if (case userId of None \<Rightarrow> False
                                     | Some u \<Rightarrow> members w3 (projectId, u) \<noteq> None)
                            then EDITOR
                            else VIEWER)
            in accept w3 role)
         else
           (case shareToken of
              None \<Rightarrow> (w2, client, [(ToClient, joinDenied unauthorized)])
            | Some st \<Rightarrow>
                if st = [] then (w2, client, [(ToClient, joinDenied unauthorized)])
                else
                  (let w3 = called (ShareValidate projectId st) w2 in
                   if \<not> share_validateShareToken env projectId st
                   then (w3, client, [(ToClient, joinDenied invalid_share_link)])
                   else accept w3 VIEWER)))"

definition handlePatch :: "World \<Rightarrow> Socket \<Rightarrow> string \<Rightarrow> Patch \<Rightarrow> World \<times> Emit list" where
  "handlePatch w client projectId patch =
     (case client_data client of
        None \<Rightarrow> (w, [])
      | Some d \<Rightarrow>
          if data_projectId d \<noteq> projectId then (w, [])
          else if data_role d \<noteq> EDITOR \<and> data_role d \<noteq> OWNER then
            (w, [(ToClient, editDenied (if truthy (data_userId d) then no_permission
                                        else login_required))])
          else
            (queuePatch w projectId patch, [(ToOthersInRoom projectId, remotePatch patch)]))"

text \<open>
  \<open>approve\<close> (the handler of \<open>approveEdit\<close>). The role of the message is any string or
  absent; absent, it is \<open>EDITOR\<close>.
\<close>

definition approve ::
  "World \<Rightarrow> Socket \<Rightarrow> string \<Rightarrow> string \<Rightarrow> string option \<Rightarrow> World \<times> Emit list" where
  "approve w client projectId userId roleOpt =
     (let role = (case roleOpt of None \<Rightarrow> ''EDITOR'' | Some r \<Rightarrow> r);
          me = (case client_data client of None \<Rightarrow> None | Some d \<Rightarrow> data_userId d)
      in if \<not> truthy me then (w, [])
         else
           (let w1 = called (ProjectFindUnique projectId) w in
            case projects w1 projectId of
              None \<Rightarrow> (w1, [])
            | Some ownerId \<Rightarrow>
                if Some ownerId \<noteq> me then (w1, [])
                else
                  (let w2 = called (ProjectMemberUpsert projectId userId) w1;
                       w3 = w2\<lparr>members := (members w2)((projectId, userId) \<mapsto>
                                 (if role = ''EDITOR'' then M_EDITOR else M_VIEWER))\<rparr>;
                       w4 = called (EditRequestUpdateMany projectId userId) w3;
                       w5 = (case editRequests w4 (projectId, userId) of
                               None \<Rightarrow> w4
                             | Some rq \<Rightarrow>
                                 if status rq = PENDING
                                 then w4\<lparr>editRequests := (editRequests w4)((projectId, userId)
                                           \<mapsto> rq\<lparr>status := APPROVED\<rparr>)\<rparr>
                                 else w4)
                   in (w5, [(ToRoom projectId, memberUpdated userId role)]))))"

section \<open>diagrams.module.ts: the REST endpoint\<close>

datatype HttpError = NotFoundException | ForbiddenException

definition assertProjectAccess :: "World \<Rightarrow> string \<Rightarrow> string \<Rightarrow> HttpError option \<times> World" where
  "assertProjectAccess w userId projectId =
     (let w1 = called (ProjectFindUnique projectId) w in
      case projects w1 projectId of
        None \<Rightarrow> (Some NotFoundException, w1)
      | Some ownerId \<Rightarrow>
          if ownerId = userId \<or> members w1 (projectId, userId) \<noteq> None then (None, w1)
          else (Some ForbiddenException, w1))"

definition getOrInit :: "string \<Rightarrow> World \<Rightarrow> string \<Rightarrow> json \<times> World" where
  "getOrInit now w projectId =
     (let w1 = called (DiagramFindUnique projectId) w in
      case diagrams w1 projectId of
        None \<Rightarrow>
          (let created = JObject [(''nodes'', JArray []), (''edges'', JArray []),
                                  (''updatedAt'', JString now)];
               w2 = called (DiagramCreate projectId) w1
           in (created, w2\<lparr>diagrams := (diagrams w2)(projectId \<mapsto> created)\<rparr>))
      | Some stored \<Rightarrow> (stored, w1))"

definition getOrInitForUser ::
  "string \<Rightarrow> World \<Rightarrow> string \<Rightarrow> string \<Rightarrow> (HttpError + json) \<times> World" where
  "getOrInitForUser now w userId projectId =
     (case assertProjectAccess w userId projectId of
        (Some e, w1) \<Rightarrow> (Inl e, w1)
      | (None, w1) \<Rightarrow> (case getOrInit now w1 projectId of (v, w2) \<Rightarrow> (Inr v, w2)))"

text \<open>
  The invariant of a snapshot, in the specification's words: \<open>nodes\<close> and \<open>edges\<close> are
  sequences, never null or absent.
\<close>

definition isSequence :: "json option \<Rightarrow> bool" where
  "isSequence v = (case v of Some (JArray xs) \<Rightarrow> True | _ \<Rightarrow> False)"

definition snapshotInvariant :: "json \<Rightarrow> bool" where
  "snapshotInvariant v =
     (case v of
        JObject kv \<Rightarrow> isSequence (map_of kv ''nodes'') \<and> isSequence (map_of kv ''edges'')
      | _ \<Rightarrow> False)"

section \<open>Fixtures\<close>

text \<open>
  A token verifier that knows two tokens, a share-link validator that accepts one link of
  project \<open>p1\<close>, a parser that knows the text of the empty object, and a store with the
  project \<open>p1\<close> of alice, of which carol is a member and bob is not.
\<close>

definition env0 :: Env where
  "env0 = \<lparr>jwt_verify = (\<lambda>t. if t = ''tok-alice'' then Some \<lparr>payload_id = Some ''alice'', payload_sub = None\<rparr>
                              else if t = ''tok-bob'' then Some \<lparr>payload_id = None, payload_sub = Some ''bob''\<rparr>
                              else None),
           share_validateShareToken = (\<lambda>p t. p = ''p1'' \<and> t = ''link-1''),
           JSON_parse = (\<lambda>s. if s = ''{}'' then Some (JObject []) else None),
           loadedAt = ''2025-01-01T00:00:00.000Z''\<rparr>"

definition w0 :: World where
  "w0 = \<lparr>rooms = Map.empty, allocated = 0,
         projects = [''p1'' \<mapsto> ''alice''],
         members = [(''p1'', ''alice'') \<mapsto> M_OWNER, (''p1'', ''carol'') \<mapsto> M_EDITOR],
         editRequests = Map.empty,
         diagrams = Map.empty,
         calls = []\<rparr>"

definition sock0 :: Socket where
  "sock0 = \<lparr>client_data = None, client_rooms = {}\<rparr>"

section \<open>The normalizer\<close>

text \<open>
  \<open>isRecord\<close> holds of the objects and of nothing else; \<open>toSnapshot\<close> tests it by
  matching on \<open>JObject\<close>.
\<close>

lemma isRecord_JObject: "isRecord v = (case v of JObject kv \<Rightarrow> True | _ \<Rightarrow> False)"
  by (cases v) simp_all

lemma coerceSnapshot_updatedAt: "now \<noteq> [] \<Longrightarrow> updatedAt (coerceSnapshot now kv) \<noteq> []"
  by (simp add: coerceSnapshot_def split: option.splits json.splits)

lemma toSnapshot_updatedAt:
  "loadedAt env \<noteq> [] \<Longrightarrow> now \<noteq> [] \<Longrightarrow> updatedAt (toSnapshot env now x) \<noteq> []"
  by (cases x)
     (simp_all add: EMPTY_SNAPSHOT_def coerceSnapshot_updatedAt split: option.splits json.splits)

lemma toSnapshot_snapshotJson:
  "updatedAt s \<noteq> [] \<Longrightarrow> toSnapshot env now (snapshotJson s) = s"
  by (simp add: snapshotJson_def coerceSnapshot_def)

lemma toSnapshot_null:
  "toSnapshot env now JNull = \<lparr>nodes = [], edges = [], updatedAt = loadedAt env\<rparr>"
  by (simp add: EMPTY_SNAPSHOT_def)

section \<open>Frame lemmas of the join\<close>

lemma parseUserIdFromToken_value:
  "fst (parseUserIdFromToken env w token) = fst (parseUserIdFromToken env w' token)"
  by (simp add: parseUserIdFromToken_def Let_def split: option.splits)

lemma parseUserIdFromToken_truthy:
  "fst (parseUserIdFromToken env w token) = Some u \<Longrightarrow> u \<noteq> []"
  by (auto simp add: parseUserIdFromToken_def Let_def truthy_def split: option.splits if_splits)

lemma parseUserIdFromToken_world:
  "snd (parseUserIdFromToken env w token) =
     (case token of None \<Rightarrow> w | Some t \<Rightarrow> if t = [] then w else called (JwtVerify t) w)"
  by (simp add: parseUserIdFromToken_def Let_def split: option.splits)

lemma parseUserIdFromToken_None_or_truthy:
  "fst (parseUserIdFromToken env w token) = None \<or> truthy (fst (parseUserIdFromToken env w token))"
  by (auto simp add: parseUserIdFromToken_def Let_def truthy_def split: option.splits if_splits)

lemma loadInitial_frame:
  "projects (snd (loadInitial env now w p)) = projects w"
  "members (snd (loadInitial env now w p)) = members w"
  "editRequests (snd (loadInitial env now w p)) = editRequests w"
  "rooms (snd (loadInitial env now w p)) = rooms w"
  "allocated (snd (loadInitial env now w p)) = allocated w"
  by (simp_all add: loadInitial_def called_def Let_def split: option.splits)

lemma parseUserIdFromToken_frame:
  "projects (snd (parseUserIdFromToken env w t)) = projects w"
  "members (snd (parseUserIdFromToken env w t)) = members w"
  "rooms (snd (parseUserIdFromToken env w t)) = rooms w"
  by (simp_all add: parseUserIdFromToken_world called_def split: option.splits)

lemma resolve_frame:
  "projects (snd (case getRoom w p of Some room \<Rightarrow> (snapshot room, w)
                  | None \<Rightarrow> loadInitial env now w p)) = projects w"
  "members (snd (case getRoom w p of Some room \<Rightarrow> (snapshot room, w)
                  | None \<Rightarrow> loadInitial env now w p)) = members w"
  "rooms (snd (case getRoom w p of Some room \<Rightarrow> (snapshot room, w)
                  | None \<Rightarrow> loadInitial env now w p)) = rooms w"
  by (simp_all add: loadInitial_frame split: option.splits)

text \<open>
  What a join does once the token has verified to the user \<open>u\<close>: neither the share token
  nor the validator occurs on the right.
\<close>

lemma handleJoin_authenticated:
  assumes "fst (parseUserIdFromToken env w authToken) = Some u"
  shows "handleJoin env now w client projectId shareToken authToken =
     (let (snap, w1) = (case getRoom w projectId of
                          Some room \<Rightarrow> (snapshot room, w)
                        | None \<Rightarrow> loadInitial env now w projectId);
          w3 = called (ProjectFindUnique projectId) (snd (parseUserIdFromToken env w1 authToken));
          role = (case projects w3 projectId of
                    None \<Rightarrow> VIEWER
                  | Some ownerId \<Rightarrow>
                      if ownerId = u then OWNER
                      else if members w3 (projectId, u) \<noteq> None then EDITOR else VIEWER)
      in (w3,
          client\<lparr>client_rooms := insert projectId (client_rooms client),
                 client_data := Some \<lparr>data_projectId = projectId, data_userId = Some u,
                                      data_role = role\<rparr>\<rparr>,
          [(ToClient, joined snap role), (ToRoom projectId, presence (Some u) role ''join'')]))"
proof -
  obtain snap w1 where sw: "(case getRoom w projectId of
                          Some room \<Rightarrow> (snapshot room, w)
                        | None \<Rightarrow> loadInitial env now w projectId) = (snap, w1)"
    by (cases "(case getRoom w projectId of
                          Some room \<Rightarrow> (snapshot room, w)
                        | None \<Rightarrow> loadInitial env now w projectId)")
  have u: "fst (parseUserIdFromToken env w1 authToken) = Some u"
    using assms parseUserIdFromToken_value [of env w1 authToken w] by simp
  then have ne: "u \<noteq> []" by (rule parseUserIdFromToken_truthy)
  obtain w2 where p: "parseUserIdFromToken env w1 authToken = (Some u, w2)"
    using u by (cases "parseUserIdFromToken env w1 authToken") simp
  show ?thesis
    unfolding handleJoin_def sw
    using ne by (simp add: p Let_def truthy_def split: option.splits)
qed

text \<open>A join never touches the map of rooms.\<close>

lemma handleJoin_rooms:
  "rooms (fst (handleJoin env now w client projectId shareToken authToken)) = rooms w"
proof -
  let ?r = "case getRoom w projectId of Some room \<Rightarrow> (snapshot room, w)
            | None \<Rightarrow> loadInitial env now w projectId"
  obtain snap w1 where sw: "?r = (snap, w1)" by (cases ?r)
  have "rooms (snd ?r) = rooms w" by (rule resolve_frame(3))
  then have r1: "rooms w1 = rooms w" by (simp add: sw)
  obtain uid w2 where p: "parseUserIdFromToken env w1 authToken = (uid, w2)"
    by (cases "parseUserIdFromToken env w1 authToken")
  have "rooms (snd (parseUserIdFromToken env w1 authToken)) = rooms w1"
    by (rule parseUserIdFromToken_frame(3))
  then have r2: "rooms w2 = rooms w" by (simp add: p r1)
  show ?thesis
    unfolding handleJoin_def sw
    by (simp add: p r2 Let_def called_def split: option.splits)
qed

text \<open>
  The user id that a join stores on a fresh socket is absent or non-empty, so the truth test
  of \<open>handlePatch\<close> on it is the test "has a user id".
\<close>

lemma handleJoin_stores_userId:
  assumes "client_data client = None"
      and "client_data (fst (snd (handleJoin env now w client projectId shareToken authToken))) = Some d"
  shows "data_userId d = None \<or> truthy (data_userId d)"
proof -
  let ?r = "case getRoom w projectId of Some room \<Rightarrow> (snapshot room, w)
            | None \<Rightarrow> loadInitial env now w projectId"
  obtain snap w1 where sw: "?r = (snap, w1)" by (cases ?r)
  obtain uid w2 where p: "parseUserIdFromToken env w1 authToken = (uid, w2)"
    by (cases "parseUserIdFromToken env w1 authToken")
  have u: "uid = None \<or> truthy uid"
    using parseUserIdFromToken_None_or_truthy [of env w1 authToken] by (simp add: p)
  show ?thesis
    using assms u unfolding handleJoin_def sw
    by (auto simp add: p Let_def split: option.splits if_splits)
qed

section \<open>Claims\<close>

text \<open>
  C1: a join whose authToken verifies to a user who is neither the owner nor a member of the
  project, with no share token, should be answered with \<open>joinDenied\<close> and leave the
  connection out of the group. The code does not deny it: \<open>role\<close> starts as \<open>VIEWER\<close>
  and the branch of \<open>if (userId)\<close> has no refusal, so bob, whose token verifies and who is
  neither the owner of \<open>p1\<close> nor a member of it, is joined to the group of \<open>p1\<close> and
  receives \<open>joined\<close> with the snapshot and the role \<open>VIEWER\<close>. The same message without
  any credential is answered with \<open>joinDenied unauthorized\<close>, and the REST access check
  refuses bob with \<open>ForbiddenException\<close>.
\<close>

theorem join_outsider_admitted:
  "fst (parseUserIdFromToken env0 w0 (Some ''tok-bob'')) = Some ''bob''
   \<and> projects w0 ''p1'' = Some ''alice''
   \<and> members w0 (''p1'', ''bob'') = None
   \<and> snd (handleJoin env0 ''2025-01-01T00:00:05.000Z'' w0 sock0 ''p1'' None (Some ''tok-bob''))
     = (\<lparr>client_data = Some \<lparr>data_projectId = ''p1'', data_userId = Some ''bob'',
                               data_role = VIEWER\<rparr>,
         client_rooms = {''p1''}\<rparr>,
        [(ToClient, joined \<lparr>nodes = [], edges = [], updatedAt = ''2025-01-01T00:00:00.000Z''\<rparr>
                      VIEWER),
         (ToRoom ''p1'', presence (Some ''bob'') VIEWER ''join'')])
   \<and> snd (handleJoin env0 ''2025-01-01T00:00:05.000Z'' w0 sock0 ''p1'' None None)
     = (sock0, [(ToClient, joinDenied unauthorized)])
   \<and> fst (assertProjectAccess w0 ''bob'' ''p1'') = Some ForbiddenException"
  by (simp add: handleJoin_def parseUserIdFromToken_def loadInitial_def getRoom_def called_def
      truthy_def env0_def w0_def sock0_def EMPTY_SNAPSHOT_def assertProjectAccess_def Let_def)

text \<open>
  C2: every successful join should leave a room for the project in the registry, so that a
  later patch is enqueued. The code does not: \<open>handleJoin\<close> reads the snapshot with
  \<open>getRoom\<close> and \<open>loadInitial\<close> and never calls \<open>ensureRoom\<close>. After the owner's
  successful join of \<open>p1\<close> there is no room for \<open>p1\<close>, and a patch from that
  connection is relayed to the others but changes nothing: \<open>queuePatch\<close> is a no-op.
\<close>

theorem join_registers_no_room:
  "snd (snd (handleJoin env0 ''2025-01-01T00:00:05.000Z'' w0 sock0 ''p1'' None (Some ''tok-alice'')))
     = [(ToClient, joined \<lparr>nodes = [], edges = [], updatedAt = ''2025-01-01T00:00:00.000Z''\<rparr> OWNER),
        (ToRoom ''p1'', presence (Some ''alice'') OWNER ''join'')]
   \<and> getRoom (fst (handleJoin env0 ''2025-01-01T00:00:05.000Z'' w0 sock0 ''p1'' None
                      (Some ''tok-alice''))) ''p1'' = None
   \<and> handlePatch (fst (handleJoin env0 ''2025-01-01T00:00:05.000Z'' w0 sock0 ''p1'' None
                      (Some ''tok-alice'')))
        (fst (snd (handleJoin env0 ''2025-01-01T00:00:05.000Z'' w0 sock0 ''p1'' None
                      (Some ''tok-alice''))))
        ''p1'' (edgeRemoved ''e1'')
     = (fst (handleJoin env0 ''2025-01-01T00:00:05.000Z'' w0 sock0 ''p1'' None (Some ''tok-alice'')),
        [(ToOthersInRoom ''p1'', remotePatch (edgeRemoved ''e1''))])"
proof -
  let ?j = "handleJoin env0 ''2025-01-01T00:00:05.000Z'' w0 sock0 ''p1'' None (Some ''tok-alice'')"
  have ev: "snd ?j
     = (\<lparr>client_data = Some \<lparr>data_projectId = ''p1'', data_userId = Some ''alice'',
                               data_role = OWNER\<rparr>,
         client_rooms = {''p1''}\<rparr>,
        [(ToClient, joined \<lparr>nodes = [], edges = [], updatedAt = ''2025-01-01T00:00:00.000Z''\<rparr> OWNER),
         (ToRoom ''p1'', presence (Some ''alice'') OWNER ''join'')])"
    by (simp add: handleJoin_def parseUserIdFromToken_def loadInitial_def getRoom_def called_def
      truthy_def env0_def w0_def sock0_def EMPTY_SNAPSHOT_def Let_def)
  have r: "rooms (fst ?j) ''p1'' = None"
    by (simp add: handleJoin_rooms) (simp add: w0_def)
  show ?thesis using r by (simp add: ev getRoom_def handlePatch_def queuePatch_def)
qed

text \<open>
  C3: every snapshot returned by the REST GET should have sequences as \<open>nodes\<close> and
  \<open>edges\<close>, also when the persisted record is malformed. The code returns the persisted
  value as it is stored: with \<open>nodes\<close> null and \<open>edges\<close> a string in the record of
  \<open>p1\<close>, the GET of the owner returns that value, which breaks the invariant, while
  \<open>loadInitial\<close> of the realtime service, reading the same record, normalizes it to empty
  sequences.
\<close>

theorem rest_get_returns_raw:
  "fst (getOrInitForUser ''2025-01-01T00:00:05.000Z''
          (w0\<lparr>diagrams := [''p1'' \<mapsto> JObject [(''nodes'', JNull), (''edges'', JString ''x'')]]\<rparr>)
          ''alice'' ''p1'')
     = Inr (JObject [(''nodes'', JNull), (''edges'', JString ''x'')])
   \<and> \<not> snapshotInvariant (JObject [(''nodes'', JNull), (''edges'', JString ''x'')])
   \<and> fst (loadInitial env0 ''2025-01-01T00:00:05.000Z''
          (w0\<lparr>diagrams := [''p1'' \<mapsto> JObject [(''nodes'', JNull), (''edges'', JString ''x'')]]\<rparr>)
          ''p1'')
     = \<lparr>nodes = [], edges = [], updatedAt = ''2025-01-01T00:00:05.000Z''\<rparr>"
  by (simp add: getOrInitForUser_def assertProjectAccess_def getOrInit_def called_def w0_def
      snapshotInvariant_def isSequence_def loadInitial_def coerceSnapshot_def Let_def)

text \<open>
  C4: \<open>normalize(null)\<close> should return empty nodes, empty edges and the time of the call as
  \<open>updatedAt\<close>. The code returns a copy of the module constant, whose \<open>updatedAt\<close> is
  the time at which the module was loaded: called five seconds after the load, it returns the
  time of the load.
\<close>

theorem toSnapshot_null_stale:
  "toSnapshot env0 ''2025-01-01T00:00:05.000Z'' JNull
     = \<lparr>nodes = [], edges = [], updatedAt = ''2025-01-01T00:00:00.000Z''\<rparr>
   \<and> updatedAt (toSnapshot env0 ''2025-01-01T00:00:05.000Z'' JNull) \<noteq> ''2025-01-01T00:00:05.000Z''"
  by (simp add: env0_def EMPTY_SNAPSHOT_def)

text \<open>
  C5: the normalizer is idempotent: normalizing the result of a normalization gives that result
  again, for every input and whatever the clock reads at the second call. The readings of the
  clock are ISO timestamps, which are not empty.
\<close>

theorem normalize_idempotent:
  assumes "loadedAt env \<noteq> []" and "now \<noteq> []"
  shows "toSnapshot env now' (snapshotJson (toSnapshot env now x)) = toSnapshot env now x"
  using assms by (simp add: toSnapshot_snapshotJson toSnapshot_updatedAt)

theorem normalize_idempotent_witness:
  "loadedAt env0 \<noteq> [] \<and> ''2025-01-01T00:00:05.000Z'' \<noteq> [] \<and>
   toSnapshot env0 ''2025-01-01T00:00:09.000Z''
     (snapshotJson (toSnapshot env0 ''2025-01-01T00:00:05.000Z''
        (JObject [(''edges'', JString ''not-an-array'')])))
   = \<lparr>nodes = [], edges = [], updatedAt = ''2025-01-01T00:00:05.000Z''\<rparr>"
  using normalize_idempotent [of env0 "''2025-01-01T00:00:05.000Z''" "''2025-01-01T00:00:09.000Z''"
      "JObject [(''edges'', JString ''not-an-array'')]"]
  by (simp add: env0_def coerceSnapshot_def)

text \<open>
  C6: a patch from a connection whose role is \<open>VIEWER\<close>, for the project it has joined,
  changes nothing (no patch is enqueued), is not broadcast, and the sender alone receives
  \<open>editDenied\<close>, with the reason \<open>no_permission\<close> if the connection has a user id and
  \<open>login_required\<close> if it has none.
\<close>

theorem viewer_patch_denied:
  assumes "client_data client = Some d"
      and "data_projectId d = projectId"
      and "data_role d = VIEWER"
  shows "handlePatch w client projectId patch =
           (w, [(ToClient, editDenied (if truthy (data_userId d) then no_permission
                                       else login_required))])"
  using assms by (simp add: handlePatch_def)

theorem viewer_patch_denied_witness:
  "handlePatch w0 \<lparr>client_data = Some \<lparr>data_projectId = ''p1'', data_userId = Some ''bob'',
                                        data_role = VIEWER\<rparr>, client_rooms = {''p1''}\<rparr>
     ''p1'' (edgeRemoved ''e1'') = (w0, [(ToClient, editDenied no_permission)])
   \<and> handlePatch w0 \<lparr>client_data = Some \<lparr>data_projectId = ''p1'', data_userId = None,
                                        data_role = VIEWER\<rparr>, client_rooms = {''p1''}\<rparr>
     ''p1'' (edgeRemoved ''e1'') = (w0, [(ToClient, editDenied login_required)])"
  using viewer_patch_denied [of "\<lparr>client_data = Some \<lparr>data_projectId = ''p1'',
            data_userId = Some ''bob'', data_role = VIEWER\<rparr>, client_rooms = {''p1''}\<rparr>"
          "\<lparr>data_projectId = ''p1'', data_userId = Some ''bob'', data_role = VIEWER\<rparr>"
          "''p1''" w0 "edgeRemoved ''e1''"]
        viewer_patch_denied [of "\<lparr>client_data = Some \<lparr>data_projectId = ''p1'',
            data_userId = None, data_role = VIEWER\<rparr>, client_rooms = {''p1''}\<rparr>"
          "\<lparr>data_projectId = ''p1'', data_userId = None, data_role = VIEWER\<rparr>"
          "''p1''" w0 "edgeRemoved ''e1''"]
  by (simp add: truthy_def)

text \<open>
  C7: a patch whose projectId differs from the projectId cached on the sending connection
  (\<open>client.data?.projectId !== projectId\<close>, which also holds of a connection that has not
  joined) changes nothing and emits nothing.
\<close>

theorem foreign_patch_dropped:
  assumes "map_option data_projectId (client_data client) \<noteq> Some projectId"
  shows "handlePatch w client projectId patch = (w, [])"
  using assms by (simp add: handlePatch_def split: option.splits)

theorem foreign_patch_dropped_witness:
  "map_option data_projectId
     (client_data \<lparr>client_data = Some \<lparr>data_projectId = ''p1'', data_userId = Some ''alice'',
                                        data_role = OWNER\<rparr>, client_rooms = {''p1''}\<rparr>)
     \<noteq> Some ''p2''
   \<and> handlePatch w0 \<lparr>client_data = Some \<lparr>data_projectId = ''p1'', data_userId = Some ''alice'',
                                        data_role = OWNER\<rparr>, client_rooms = {''p1''}\<rparr>
     ''p2'' (edgeRemoved ''e1'') = (w0, [])"
  using foreign_patch_dropped [of "\<lparr>client_data = Some \<lparr>data_projectId = ''p1'',
            data_userId = Some ''alice'', data_role = OWNER\<rparr>, client_rooms = {''p1''}\<rparr>"
          "''p2''" w0 "edgeRemoved ''e1''"]
  by simp

text \<open>
  C8: \<open>ensureRoom\<close> is idempotent: a second call for the same project, right after the
  first, returns the same room (same identity, same snapshot) and leaves the whole state as it
  is: no store call is added to the trace and no room is constructed.
\<close>

theorem ensureRoom_idempotent:
  assumes "ensureRoom env now w projectId = (room, w')"
  shows "ensureRoom env now' w' projectId = (room, w')"
proof (cases "rooms w projectId")
  case (Some r)
  with assms show ?thesis by (auto simp add: ensureRoom_def)
next
  case None
  with assms have "rooms w' projectId = Some room"
    by (auto simp add: ensureRoom_def Let_def split: prod.splits)
  then show ?thesis by (simp add: ensureRoom_def)
qed

theorem ensureRoom_idempotent_witness:
  "ensureRoom env0 ''2025-01-01T00:00:09.000Z''
      (snd (ensureRoom env0 ''2025-01-01T00:00:05.000Z'' w0 ''p1'')) ''p1''
     = ensureRoom env0 ''2025-01-01T00:00:05.000Z'' w0 ''p1''
   \<and> ref (fst (ensureRoom env0 ''2025-01-01T00:00:05.000Z'' w0 ''p1'')) = 0
   \<and> calls (snd (ensureRoom env0 ''2025-01-01T00:00:05.000Z'' w0 ''p1''))
     = [DiagramFindUnique ''p1'', DiagramCreate ''p1'']"
proof -
  let ?e = "ensureRoom env0 ''2025-01-01T00:00:05.000Z'' w0 ''p1''"
  have h: "?e = (fst ?e, snd ?e)" by simp
  have r: "ref (fst ?e) = 0"
    by (simp add: ensureRoom_def loadInitial_def called_def w0_def Let_def)
  have c: "calls (snd ?e) = [DiagramFindUnique ''p1'', DiagramCreate ''p1'']"
    by (simp add: ensureRoom_def loadInitial_def called_def w0_def Let_def)
  show ?thesis
    using ensureRoom_idempotent [OF h, of "''2025-01-01T00:00:09.000Z''"] r c by simp
qed

text \<open>
  C9: an \<open>approveEdit\<close> whose sender \<open>me\<close> has no user id, or is not the owner of the
  project as the store has it (also when the project does not exist), is a silent no-op: no
  event is emitted, no membership row and no edit request changes, and the state is as before
  but for the trace of calls (the read of the project).
\<close>

theorem approve_non_owner_noop:
  assumes "me = (case client_data client of None \<Rightarrow> None | Some d \<Rightarrow> data_userId d)"
      and "\<not> truthy me \<or> projects w projectId \<noteq> me"
  shows "snd (approve w client projectId userId roleOpt) = []
         \<and> members (fst (approve w client projectId userId roleOpt)) = members w
         \<and> editRequests (fst (approve w client projectId userId roleOpt)) = editRequests w
         \<and> (fst (approve w client projectId userId roleOpt))\<lparr>calls := calls w\<rparr> = w"
  using assms
  by (auto simp add: approve_def Let_def called_def split: option.splits)

theorem approve_non_owner_noop_witness:
  "truthy (Some ''bob'') \<and> projects w0 ''p1'' \<noteq> Some ''bob''
   \<and> snd (approve w0 \<lparr>client_data = Some \<lparr>data_projectId = ''p1'', data_userId = Some ''bob'',
                                          data_role = VIEWER\<rparr>, client_rooms = {''p1''}\<rparr>
             ''p1'' ''bob'' None) = []
   \<and> members (fst (approve w0 \<lparr>client_data = Some \<lparr>data_projectId = ''p1'',
                       data_userId = Some ''bob'', data_role = VIEWER\<rparr>, client_rooms = {''p1''}\<rparr>
             ''p1'' ''bob'' None)) (''p1'', ''bob'') = None"
proof -
  have a: "Some ''bob'' = (case client_data \<lparr>client_data = Some \<lparr>data_projectId = ''p1'',
              data_userId = Some ''bob'', data_role = VIEWER\<rparr>, client_rooms = {''p1''}\<rparr> of
             None \<Rightarrow> None | Some d \<Rightarrow> data_userId d)"
    by simp
  have b: "\<not> truthy (Some ''bob'') \<or> projects w0 ''p1'' \<noteq> Some ''bob''"
    by (simp add: w0_def)
  have m: "members w0 (''p1'', ''bob'') = None" by (simp add: w0_def)
  show ?thesis
    using approve_non_owner_noop [OF a b, of "''bob''" None] by (simp add: m w0_def truthy_def)
qed

text \<open>
  C10: when the authToken of a join verifies to a user id, the outcome of the join (the new
  state with its trace of calls, the socket with its role and groups, the events) is the same
  for all share tokens and all share-link validators: the validator is not consulted.
\<close>

theorem authenticated_join_ignores_shareToken:
  assumes "fst (parseUserIdFromToken env w authToken) = Some u"
  shows "handleJoin (env\<lparr>share_validateShareToken := v1\<rparr>) now w client projectId s1 authToken
       = handleJoin (env\<lparr>share_validateShareToken := v2\<rparr>) now w client projectId s2 authToken"
proof -
  have e: "parseUserIdFromToken (env\<lparr>share_validateShareToken := v\<rparr>) w' t
         = parseUserIdFromToken env w' t" for v w' t
    by (simp add: parseUserIdFromToken_def split: option.splits)
  have t: "toSnapshot (env\<lparr>share_validateShareToken := v\<rparr>) now x = toSnapshot env now x" for v x
    by (cases x) (simp_all add: EMPTY_SNAPSHOT_def split: option.splits json.splits)
  have l: "loadInitial (env\<lparr>share_validateShareToken := v\<rparr>) now w projectId
         = loadInitial env now w projectId" for v
    by (simp add: loadInitial_def t EMPTY_SNAPSHOT_def Let_def split: option.splits)
  have a: "fst (parseUserIdFromToken (env\<lparr>share_validateShareToken := v\<rparr>) w authToken) = Some u" for v
    using assms by (simp add: e)
  show ?thesis
    unfolding handleJoin_authenticated [OF a] l e by (rule refl)
qed

theorem authenticated_join_ignores_shareToken_witness:
  "fst (parseUserIdFromToken env0 w0 (Some ''tok-alice'')) = Some ''alice''
   \<and> handleJoin (env0\<lparr>share_validateShareToken := (\<lambda>p t. True)\<rparr>) ''2025-01-01T00:00:05.000Z''
        w0 sock0 ''p1'' None (Some ''tok-alice'')
     = handleJoin (env0\<lparr>share_validateShareToken := (\<lambda>p t. False)\<rparr>) ''2025-01-01T00:00:05.000Z''
        w0 sock0 ''p1'' (Some ''link-2'') (Some ''tok-alice'')"
proof -
  have a: "fst (parseUserIdFromToken env0 w0 (Some ''tok-alice'')) = Some ''alice''"
    by (simp add: parseUserIdFromToken_def env0_def truthy_def Let_def)
  show ?thesis
    using a authenticated_join_ignores_shareToken [OF a] by simp
qed

end
